theory Spec2Isabelle
  imports Complex_Main
begin

section \<open>Python values and exceptions\<close>

text \<open>
  The values that \<open>response.json()\<close> can produce: JSON null, booleans, integers, floats,
  strings, arrays and objects, as the Python objects \<open>None\<close>, \<open>bool\<close>, \<open>int\<close>,
  \<open>float\<close>, \<open>str\<close>, \<open>list\<close> and \<open>dict\<close>. A \<open>dict\<close> is an association list
  read with \<open>map_of\<close>. A \<open>str\<close> is a list of code points below 256. Floats are only
  copied and tested for zero by the code, never computed with.
\<close>

datatype pyval =
    PNone
  | PBool bool
  | PInt int
  | PFloat real
  | PStr string
  | PList "pyval list"
  | PDict "(string \<times> pyval) list"

text \<open>
  The subclasses of Python's \<open>Exception\<close> that the modelled code paths raise or receive
  from their collaborators. \<open>CalledProcessError\<close> carries the captured stderr.
\<close>

datatype stderr_bytes =
    Utf8 string  \<comment> \<open>bytes that \<open>.decode()\<close> turns into this text\<close>
  | NotUtf8      \<comment> \<open>bytes on which \<open>.decode()\<close> raises UnicodeDecodeError\<close>

datatype exn =
    CalledProcessError stderr_bytes
  | FileNotFoundError
  | PermissionError
  | OSError
  | UnicodeDecodeError
  | RuntimeError string
  | ConnectionError string
  | RequestsTimeout            \<comment> \<open>requests.exceptions.Timeout\<close>
  | RequestsConnectionError    \<comment> \<open>requests.exceptions.ConnectionError\<close>
  | HTTPError                  \<comment> \<open>requests.exceptions.HTTPError\<close>
  | JSONDecodeError            \<comment> \<open>requests.exceptions.JSONDecodeError\<close>
  | AttributeError
  | TypeError
  | KeyError
  | OtherException string

fun is_Timeout :: "exn \<Rightarrow> bool" where
  "is_Timeout RequestsTimeout = True"
| "is_Timeout _ = False"

fun is_RequestException :: "exn \<Rightarrow> bool" where
  "is_RequestException RequestsTimeout = True"
| "is_RequestException RequestsConnectionError = True"
| "is_RequestException HTTPError = True"
| "is_RequestException JSONDecodeError = True"
| "is_RequestException _ = False"

definition bind :: "exn + 'a \<Rightarrow> ('a \<Rightarrow> exn + 'b) \<Rightarrow> exn + 'b" where
  "bind m f = (case m of Inl e \<Rightarrow> Inl e | Inr x \<Rightarrow> f x)"

section \<open>The outside world\<close>

type_synonym path = "string list"  \<comment> \<open>a pathlib.Path as its parts\<close>

text \<open>
  \<open>str(path)\<close>: the parts joined with \<open>/\<close>; the root \<open>/\<close> of an absolute path is a
  part of its own and takes no separator after it. \<open>path.name\<close> is the last part, empty
  for the empty path and for the root.
\<close>

fun path_str :: "path \<Rightarrow> string" where
  "path_str [] = ''.''"
| "path_str [c] = c"
| "path_str (c # cs) = (if c = ''/'' then c @ path_str cs else c @ ''/'' @ path_str cs)"

definition path_name :: "path \<Rightarrow> string" where
  "path_name p = (if p = [] \<or> last p = ''/'' then [] else last p)"

record http_response =
  status_code :: int
  json_body :: "pyval option"  \<comment> \<open>\<open>None\<close>: the body is not JSON, \<open>.json()\<close> raises\<close>

datatype http_outcome = HttpRaises exn | HttpResponse http_response

record post_request =
  post_url :: string
  post_files :: "(string \<times> string \<times> path \<times> string) list"
  post_data :: "(string \<times> string) list"
  post_timeout :: int

datatype proc_outcome =
    SpawnRaises exn            \<comment> \<open>the process could not be started\<close>
  | Exited int stderr_bytes    \<comment> \<open>return code and captured stderr\<close>

type_synonym audio_segment = nat  \<comment> \<open>a handle to a pydub AudioSegment\<close>

record world =
  http_get :: "string \<Rightarrow> int \<Rightarrow> http_outcome"
  http_post :: "post_request \<Rightarrow> http_outcome"
  open_rb :: "path \<Rightarrow> exn option"
  spawn :: "string list \<Rightarrow> proc_outcome"
  mkdir :: "path \<Rightarrow> exn option"
  from_file :: "string \<Rightarrow> exn + audio_segment"
  set_channels :: "audio_segment \<Rightarrow> nat \<Rightarrow> exn + audio_segment"
  set_frame_rate :: "audio_segment \<Rightarrow> nat \<Rightarrow> exn + audio_segment"
  export :: "audio_segment \<Rightarrow> string \<Rightarrow> string \<Rightarrow> exn option"

text \<open>The calls a function makes to the outside world, in order.\<close>

datatype action =
    HttpGet string int
  | Run "string list"
  | Mkdir path
  | FromFile string
  | SetChannels nat
  | SetFrameRate nat
  | Export string string

text \<open>\<open>subprocess.run(cmd, check=True, capture_output=True)\<close>\<close>

definition subprocess_run :: "world \<Rightarrow> string list \<Rightarrow> exn + unit" where
  "subprocess_run w cmd =
     (case spawn w cmd of
        SpawnRaises e \<Rightarrow> Inl e
      | Exited returncode err \<Rightarrow>
          if returncode \<noteq> 0 then Inl (CalledProcessError err) else Inr ())"

section \<open>WhisperClient\<close>

record WhisperClient =
  api_url :: string
  timeout :: int
  transcribe_url :: string

definition rstrip_slash :: "string \<Rightarrow> string" where
  "rstrip_slash s = rev (dropWhile (\<lambda>c. c = CHR ''/'') (rev s))"

text \<open>
  \<open>WhisperClient.__init__\<close>: the guarded region holds the GET and, on status 200, the
  parse of the body; any exception there becomes \<open>ConnectionError\<close>. Another status is
  only logged as a warning.
\<close>

definition health_probe :: "world \<Rightarrow> string \<Rightarrow> exn + unit" where
  "health_probe w base =
     (case http_get w (base @ ''/health'') 10 of
        HttpRaises e \<Rightarrow> Inl e
      | HttpResponse health_response \<Rightarrow>
          if status_code health_response = 200
          then (case json_body health_response of
                  None \<Rightarrow> Inl JSONDecodeError
                | Some health_data \<Rightarrow> Inr ())
          else Inr ())"

definition WhisperClient_init ::
  "world \<Rightarrow> string \<Rightarrow> int \<Rightarrow> action list \<times> (exn + WhisperClient)" where
  "WhisperClient_init w url tmo =
     (let base = rstrip_slash url;
          self = \<lparr>api_url = base, timeout = tmo,
                  transcribe_url = base @ ''/v1/audio/transcriptions''\<rparr>
      in ([HttpGet (base @ ''/health'') 10],
          case health_probe w base of
            Inl e \<Rightarrow> Inl (ConnectionError url)
          | Inr _ \<Rightarrow> Inr self))"

text \<open>\<open>WhisperClient.check_health\<close>\<close>

definition check_health :: "world \<Rightarrow> WhisperClient \<Rightarrow> bool" where
  "check_health w self =
     (case http_get w (api_url self @ ''/health'') 10 of
        HttpRaises e \<Rightarrow> False
      | HttpResponse response \<Rightarrow> status_code response = 200)"

text \<open>
  \<open>WhisperClient.transcribe\<close>: the body of the \<open>try\<close>, then the three handlers, each
  of which returns \<open>None\<close>.
\<close>

definition form_data :: "string option \<Rightarrow> (string \<times> string) list" where
  "form_data language =
     [(''model'', ''whisper-1''), (''response_format'', ''json'')] @
     (case language of
        None \<Rightarrow> []
      | Some l \<Rightarrow> if l \<noteq> [] then [(''language'', l)] else [])"

definition raise_for_status :: "http_response \<Rightarrow> exn + unit" where
  "raise_for_status response =
     (if 400 \<le> status_code response \<and> status_code response < 600
      then Inl HTTPError else Inr ())"

definition response_json :: "http_response \<Rightarrow> exn + pyval" where
  "response_json response =
     (case json_body response of None \<Rightarrow> Inl JSONDecodeError | Some v \<Rightarrow> Inr v)"

definition transcription_request ::
  "WhisperClient \<Rightarrow> path \<Rightarrow> string option \<Rightarrow> post_request" where
  "transcription_request self audio_path language =
     \<lparr>post_url = transcribe_url self,
      post_files = [(''file'', path_name audio_path, audio_path, ''audio/wav'')],
      post_data = form_data language,
      post_timeout = timeout self\<rparr>"

definition client_transcribe_body ::
  "world \<Rightarrow> WhisperClient \<Rightarrow> path \<Rightarrow> string option \<Rightarrow> exn + pyval" where
  "client_transcribe_body w self audio_path language =
     (case open_rb w audio_path of
        Some e \<Rightarrow> Inl e
      | None \<Rightarrow>
          (case http_post w (transcription_request self audio_path language) of
             HttpRaises e \<Rightarrow> Inl e
           | HttpResponse response \<Rightarrow>
               bind (raise_for_status response) (\<lambda>_. response_json response)))"

definition client_transcribe ::
  "world \<Rightarrow> WhisperClient \<Rightarrow> path \<Rightarrow> string option \<Rightarrow> pyval" where
  "client_transcribe w self audio_path language =
     (case client_transcribe_body w self audio_path language of
        Inr result \<Rightarrow> result
      | Inl e \<Rightarrow>
          if is_Timeout e then PNone
          else if is_RequestException e then PNone
          else PNone)"

section \<open>AudioProcessor\<close>

record word_info =
  word :: pyval
  word_start :: pyval
  word_end :: pyval
  probability :: pyval

record segment_info =
  seg_text :: pyval
  seg_start :: pyval
  seg_end :: pyval
  seg_words :: "word_info list"

record AudioTranscript =
  transcript_text :: pyval
  segments :: "segment_info list"
  language :: pyval

record AudioProcessor =
  self_language :: "string option"  \<comment> \<open>\<open>self.language\<close>\<close>
  whisper_client :: WhisperClient
  has_ffmpeg :: bool

definition default_whisper_api_url :: string where
  "default_whisper_api_url = ''http://localhost:16000''"

definition default_timeout :: int where
  "default_timeout = 300"

text \<open>
  \<open>AudioProcessor.__init__\<close>: an exception of the client's constructor is logged and
  raised again; the ffmpeg probe turns \<open>CalledProcessError\<close> and \<open>FileNotFoundError\<close>
  into the flag.
\<close>

definition AudioProcessor_init ::
  "world \<Rightarrow> string option \<Rightarrow> string \<Rightarrow> int \<Rightarrow> action list \<times> (exn + AudioProcessor)" where
  "AudioProcessor_init w lang whisper_api_url tmo =
     (let lang' = (case lang of
                     None \<Rightarrow> None
                   | Some l \<Rightarrow> if l \<noteq> [] then Some l else None)
      in case WhisperClient_init w whisper_api_url tmo of
           (tr, Inl e) \<Rightarrow> (tr, Inl e)
         | (tr, Inr client) \<Rightarrow>
             (tr @ [Run [''ffmpeg'', ''-version'']],
              case subprocess_run w [''ffmpeg'', ''-version''] of
                Inr _ \<Rightarrow>
                  Inr \<lparr>self_language = lang', whisper_client = client, has_ffmpeg = True\<rparr>
              | Inl (CalledProcessError _) \<Rightarrow>
                  Inr \<lparr>self_language = lang', whisper_client = client, has_ffmpeg = False\<rparr>
              | Inl FileNotFoundError \<Rightarrow>
                  Inr \<lparr>self_language = lang', whisper_client = client, has_ffmpeg = False\<rparr>
              | Inl e \<Rightarrow> Inl e))"

subsection \<open>extract_audio\<close>

fun str_contains :: "string \<Rightarrow> string \<Rightarrow> bool" where
  "str_contains needle [] = (needle = [])"
| "str_contains needle (c # cs) =
     (take (length needle) (c # cs) = needle \<or> str_contains needle cs)"

definition no_stream_marker :: string where
  "no_stream_marker = ''Output file does not contain any stream''"

definition install_guidance :: string where
  "install_guidance =
     ''Failed to extract audio. Please install ffmpeg using:'' @ [CHR 0x0A] @
     ''Ubuntu/Debian: sudo apt-get update && sudo apt-get install -y ffmpeg'' @ [CHR 0x0A] @
     ''MacOS: brew install ffmpeg'' @ [CHR 0x0A] @
     ''Windows: choco install ffmpeg''"

definition ffmpeg_command :: "path \<Rightarrow> path \<Rightarrow> string list" where
  "ffmpeg_command video_path audio_path =
     [''ffmpeg'', ''-i'', path_str video_path,
      ''-vn'',
      ''-acodec'', ''pcm_s16le'',
      ''-ar'', ''16000'',
      ''-ac'', ''1'',
      ''-y'',
      path_str audio_path]"

text \<open>
  The pydub fallback: the inner \<open>try\<close> of \<open>extract_audio\<close>. Each call is recorded before
  its outcome is known; any exception becomes the \<open>RuntimeError\<close> with the install
  guidance.
\<close>

definition pydub_body ::
  "world \<Rightarrow> path \<Rightarrow> path \<Rightarrow> action list \<times> (exn + path option)" where
  "pydub_body w video_path audio_path =
     (case from_file w (path_str video_path) of
        Inl e \<Rightarrow> ([FromFile (path_str video_path)], Inl e)
      | Inr video \<Rightarrow>
          (case set_channels w video 1 of
             Inl e \<Rightarrow> ([FromFile (path_str video_path), SetChannels 1], Inl e)
           | Inr downmixed \<Rightarrow>
               (case set_frame_rate w downmixed 16000 of
                  Inl e \<Rightarrow>
                    ([FromFile (path_str video_path), SetChannels 1, SetFrameRate 16000],
                     Inl e)
                | Inr audio \<Rightarrow>
                    ([FromFile (path_str video_path), SetChannels 1, SetFrameRate 16000,
                      Export (path_str audio_path) ''wav''],
                     case export w audio (path_str audio_path) ''wav'' of
                       Some e \<Rightarrow> Inl e
                     | None \<Rightarrow> Inr (Some audio_path)))))"

definition pydub_fallback ::
  "world \<Rightarrow> path \<Rightarrow> path \<Rightarrow> action list \<times> (exn + path option)" where
  "pydub_fallback w video_path audio_path =
     (case pydub_body w video_path audio_path of
        (tr, Inl e2) \<Rightarrow> (tr, Inl (RuntimeError install_guidance))
      | (tr, Inr r) \<Rightarrow> (tr, Inr r))"

text \<open>
  \<open>AudioProcessor.extract_audio\<close>. The only handler of the outer \<open>try\<close> is for
  \<open>CalledProcessError\<close>; every other exception of \<open>subprocess.run\<close> leaves the method.
\<close>

definition extract_audio ::
  "world \<Rightarrow> path \<Rightarrow> path \<Rightarrow> action list \<times> (exn + path option)" where
  "extract_audio w video_path output_dir =
     (let audio_path = output_dir @ [''audio.wav''];
          cmd = ffmpeg_command video_path audio_path
      in case mkdir w output_dir of
           Some e \<Rightarrow> ([Mkdir output_dir], Inl e)
         | None \<Rightarrow>
             (case subprocess_run w cmd of
                Inr _ \<Rightarrow> ([Mkdir output_dir, Run cmd], Inr (Some audio_path))
              | Inl (CalledProcessError err) \<Rightarrow>
                  (case err of
                     NotUtf8 \<Rightarrow> ([Mkdir output_dir, Run cmd], Inl UnicodeDecodeError)
                   | Utf8 error_output \<Rightarrow>
                       if str_contains no_stream_marker error_output
                       then ([Mkdir output_dir, Run cmd], Inr None)
                       else (case pydub_fallback w video_path audio_path of
                               (tr, r) \<Rightarrow> ([Mkdir output_dir, Run cmd] @ tr, r)))
              | Inl e \<Rightarrow> ([Mkdir output_dir, Run cmd], Inl e)))"

subsection \<open>Python operations used by transcribe\<close>

fun truthy :: "pyval \<Rightarrow> bool" where
  "truthy PNone = False"
| "truthy (PBool b) = b"
| "truthy (PInt i) = (i \<noteq> 0)"
| "truthy (PFloat x) = (x \<noteq> 0)"
| "truthy (PStr s) = (s \<noteq> [])"
| "truthy (PList xs) = (xs \<noteq> [])"
| "truthy (PDict d) = (d \<noteq> [])"

text \<open>\<open>obj.get(key, default)\<close>: only a dict has the method.\<close>

definition dict_get :: "(string \<times> pyval) list \<Rightarrow> string \<Rightarrow> pyval \<Rightarrow> pyval" where
  "dict_get d key dflt = (case map_of d key of Some v \<Rightarrow> v | None \<Rightarrow> dflt)"

fun py_get :: "pyval \<Rightarrow> string \<Rightarrow> pyval \<Rightarrow> exn + pyval" where
  "py_get (PDict d) key dflt = Inr (dict_get d key dflt)"
| "py_get _ key dflt = Inl AttributeError"

text \<open>\<open>key in obj\<close> for a string key.\<close>

fun py_in :: "string \<Rightarrow> pyval \<Rightarrow> exn + bool" where
  "py_in key (PDict d) = Inr (map_of d key \<noteq> None)"
| "py_in key (PList xs) = Inr (PStr key \<in> set xs)"
| "py_in key (PStr s) = Inr (str_contains key s)"
| "py_in key _ = Inl TypeError"

text \<open>\<open>obj[key]\<close> for a string key.\<close>

fun py_index :: "pyval \<Rightarrow> string \<Rightarrow> exn + pyval" where
  "py_index (PDict d) key = (case map_of d key of Some v \<Rightarrow> Inr v | None \<Rightarrow> Inl KeyError)"
| "py_index _ key = Inl TypeError"

text \<open>The items a \<open>for\<close> loop visits: a str yields its characters, a dict its keys.\<close>

fun py_iter :: "pyval \<Rightarrow> exn + pyval list" where
  "py_iter (PList xs) = Inr xs"
| "py_iter (PStr s) = Inr (map (\<lambda>c. PStr [c]) s)"
| "py_iter (PDict d) = Inr (map (\<lambda>kv. PStr (fst kv)) d)"
| "py_iter _ = Inl TypeError"

text \<open>The code points below 256 that \<open>str.strip()\<close> removes.\<close>

definition is_space :: "char \<Rightarrow> bool" where
  "is_space c = ((of_char c :: nat) \<in> {9, 10, 11, 12, 13, 28, 29, 30, 31, 32, 133, 160})"

definition strip :: "string \<Rightarrow> string" where
  "strip s = rev (dropWhile is_space (rev (dropWhile is_space s)))"

fun py_strip :: "pyval \<Rightarrow> exn + pyval" where
  "py_strip (PStr s) = Inr (PStr (strip s))"
| "py_strip _ = Inl AttributeError"

subsection \<open>transcribe\<close>

definition normalize_word :: "pyval \<Rightarrow> exn + word_info" where
  "normalize_word wd =
     bind (py_get wd ''word'' (PStr [])) (\<lambda>a.
     bind (py_get wd ''start'' (PFloat 0)) (\<lambda>b.
     bind (py_get wd ''end'' (PFloat 0)) (\<lambda>c.
     bind (py_get wd ''probability'' (PFloat 1)) (\<lambda>d.
     Inr \<lparr>word = a, word_start = b, word_end = c, probability = d\<rparr>))))"

text \<open>The inner loop: \<open>segment_info["words"].append(word_info)\<close> for each word.\<close>

fun words_loop :: "pyval list \<Rightarrow> word_info list \<Rightarrow> exn + word_info list" where
  "words_loop [] acc = Inr acc"
| "words_loop (wd # rest) acc =
     bind (normalize_word wd) (\<lambda>word_info. words_loop rest (acc @ [word_info]))"

text \<open>The condition \<open>"words" in segment and segment["words"]\<close>, with its short circuit.\<close>

definition has_words :: "pyval \<Rightarrow> exn + bool" where
  "has_words segment =
     bind (py_in ''words'' segment) (\<lambda>present.
     if present then bind (py_index segment ''words'') (\<lambda>ws. Inr (truthy ws))
     else Inr False)"

definition normalize_segment :: "pyval \<Rightarrow> exn + segment_info" where
  "normalize_segment segment =
     bind (py_get segment ''text'' (PStr [])) (\<lambda>t.
     bind (py_get segment ''start'' (PFloat 0)) (\<lambda>s.
     bind (py_get segment ''end'' (PFloat 0)) (\<lambda>e.
     bind (has_words segment) (\<lambda>c.
     if c
     then bind (py_index segment ''words'') (\<lambda>ws.
          bind (py_iter ws) (\<lambda>items.
          bind (words_loop items []) (\<lambda>wl.
          Inr \<lparr>seg_text = t, seg_start = s, seg_end = e, seg_words = wl\<rparr>)))
     else Inr \<lparr>seg_text = t, seg_start = s, seg_end = e, seg_words = []\<rparr>))))"

text \<open>The outer loop: \<open>segment_data.append(segment_info)\<close> for each segment.\<close>

fun segments_loop :: "pyval list \<Rightarrow> segment_info list \<Rightarrow> exn + segment_info list" where
  "segments_loop [] acc = Inr acc"
| "segments_loop (segment # rest) acc =
     bind (normalize_segment segment) (\<lambda>segment_info.
       segments_loop rest (acc @ [segment_info]))"

definition basic_segment :: "pyval \<Rightarrow> pyval" where
  "basic_segment text_value =
     PDict [(''text'', text_value), (''start'', PFloat 0), (''end'', PFloat 0),
            (''words'', PList [])]"

text \<open>\<open>not text or not text.strip()\<close>\<close>

definition no_text :: "pyval \<Rightarrow> exn + bool" where
  "no_text text_value =
     (if \<not> truthy text_value then Inr True
      else bind (py_strip text_value) (\<lambda>stripped. Inr (\<not> truthy stripped)))"

text \<open>\<open>self.language or 'unknown'\<close>\<close>

definition language_default :: "string option \<Rightarrow> pyval" where
  "language_default lang =
     (case lang of
        None \<Rightarrow> PStr ''unknown''
      | Some l \<Rightarrow> if l \<noteq> [] then PStr l else PStr ''unknown'')"

text \<open>
  The part of \<open>AudioProcessor.transcribe\<close> after the request: from the client's result
  to the transcript, inside the \<open>try\<close>.
\<close>

definition process_result :: "string option \<Rightarrow> pyval \<Rightarrow> exn + AudioTranscript option" where
  "process_result lang result =
     (if \<not> truthy result then Inr None
      else
        bind (py_get result ''text'' (PStr [])) (\<lambda>text_value.
        bind (no_text text_value) (\<lambda>blank.
        if blank then Inr None
        else
          bind (py_get result ''segments'' (PList [])) (\<lambda>segs.
          bind (py_iter (if \<not> truthy segs then PList [basic_segment text_value] else segs))
            (\<lambda>items.
          bind (segments_loop items []) (\<lambda>segment_data.
          bind (py_get result ''language'' (language_default lang)) (\<lambda>detected_language.
          Inr (Some \<lparr>transcript_text = text_value, segments = segment_data,
                     language = detected_language\<rparr>))))))))"

definition transcribe_body ::
  "world \<Rightarrow> AudioProcessor \<Rightarrow> path \<Rightarrow> exn + AudioTranscript option" where
  "transcribe_body w self audio_path =
     process_result (self_language self)
       (client_transcribe w (whisper_client self) audio_path (self_language self))"

text \<open>\<open>AudioProcessor.transcribe\<close>: the \<open>try\<close> with its \<open>except Exception\<close>.\<close>

definition transcribe ::
  "world \<Rightarrow> AudioProcessor \<Rightarrow> path \<Rightarrow> exn + AudioTranscript option" where
  "transcribe w self audio_path =
     (case transcribe_body w self audio_path of
        Inr r \<Rightarrow> Inr r
      | Inl e \<Rightarrow> Inr None)"

section \<open>The specification's words\<close>

text \<open>
  The normalizer as the specification describes it: each word entry is copied with its
  defaults (probability 1.0, timestamps 0.0; the word itself defaults to the empty string),
  each segment is copied with its defaults and its word entries.
\<close>

fun spec_copies_word :: "pyval \<Rightarrow> word_info \<Rightarrow> bool" where
  "spec_copies_word (PDict wd) wi =
     (wi = \<lparr>word = dict_get wd ''word'' (PStr []),
            word_start = dict_get wd ''start'' (PFloat 0),
            word_end = dict_get wd ''end'' (PFloat 0),
            probability = dict_get wd ''probability'' (PFloat 1)\<rparr>)"
| "spec_copies_word _ wi = False"

fun spec_copies_words :: "pyval option \<Rightarrow> word_info list \<Rightarrow> bool" where
  "spec_copies_words (Some (PList ws)) wis = list_all2 spec_copies_word ws wis"
| "spec_copies_words _ wis = (wis = [])"

fun spec_copies_segment :: "pyval \<Rightarrow> segment_info \<Rightarrow> bool" where
  "spec_copies_segment (PDict sd) si =
     (seg_text si = dict_get sd ''text'' (PStr []) \<and>
      seg_start si = dict_get sd ''start'' (PFloat 0) \<and>
      seg_end si = dict_get sd ''end'' (PFloat 0) \<and>
      spec_copies_words (map_of sd ''words'') (seg_words si))"
| "spec_copies_segment _ si = False"

text \<open>
  A structurally valid response, after the wire contract: an object whose
  \<open>text\<close>, when present, is a string, whose \<open>segments\<close>, when present, is an array of
  objects, and in each of them \<open>words\<close>, when present, is an array of objects.
\<close>

fun is_dict :: "pyval \<Rightarrow> bool" where
  "is_dict (PDict d) = True"
| "is_dict _ = False"

fun valid_words :: "pyval option \<Rightarrow> bool" where
  "valid_words None = True"
| "valid_words (Some (PList ws)) = list_all is_dict ws"
| "valid_words (Some _) = False"

fun valid_segment :: "pyval \<Rightarrow> bool" where
  "valid_segment (PDict sd) = valid_words (map_of sd ''words'')"
| "valid_segment _ = False"

fun valid_segments :: "pyval option \<Rightarrow> bool" where
  "valid_segments None = True"
| "valid_segments (Some (PList ss)) = list_all valid_segment ss"
| "valid_segments (Some _) = False"

fun valid_text :: "pyval option \<Rightarrow> bool" where
  "valid_text None = True"
| "valid_text (Some (PStr s)) = True"
| "valid_text (Some _) = False"

fun structurally_valid :: "pyval \<Rightarrow> bool" where
  "structurally_valid (PDict d) =
     (valid_text (map_of d ''text'') \<and> valid_segments (map_of d ''segments''))"
| "structurally_valid _ = False"

text \<open>The top-level text of a response, empty when the key is absent.\<close>

fun raw_text :: "pyval \<Rightarrow> string" where
  "raw_text (PDict d) = (case map_of d ''text'' of Some (PStr s) \<Rightarrow> s | _ \<Rightarrow> [])"
| "raw_text _ = []"

section \<open>Example worlds\<close>

text \<open>A healthy service that answers every transcription request with \<open>reply\<close>.\<close>

definition service_world :: "pyval \<Rightarrow> world" where
  "service_world reply =
     \<lparr>http_get = (\<lambda>url t. HttpResponse
         \<lparr>status_code = 200, json_body = Some (PDict [(''status'', PStr ''ok'')])\<rparr>),
      http_post = (\<lambda>req. HttpResponse \<lparr>status_code = 200, json_body = Some reply\<rparr>),
      open_rb = (\<lambda>p. None),
      spawn = (\<lambda>cmd. Exited 0 (Utf8 [])),
      mkdir = (\<lambda>p. None),
      from_file = (\<lambda>p. Inr 0),
      set_channels = (\<lambda>a n. Inr a),
      set_frame_rate = (\<lambda>a n. Inr a),
      export = (\<lambda>a p f. None)\<rparr>"

definition example_world :: world where
  "example_world = service_world (PDict [(''text'', PStr ''hi'')])"

definition example_url :: string where
  "example_url = ''http://whisper:16000/''"

definition example_client :: WhisperClient where
  "example_client =
     \<lparr>api_url = ''http://whisper:16000'', timeout = 300,
      transcribe_url = ''http://whisper:16000/v1/audio/transcriptions''\<rparr>"

definition example_processor :: "string option \<Rightarrow> AudioProcessor" where
  "example_processor lang =
     \<lparr>self_language = lang, whisper_client = example_client, has_ffmpeg = True\<rparr>"

definition example_audio :: path where
  "example_audio = [''out'', ''audio.wav'']"

text \<open>The health endpoint cannot be reached.\<close>

definition unreachable_world :: world where
  "unreachable_world =
     example_world\<lparr>http_get := (\<lambda>url t. HttpRaises RequestsConnectionError)\<rparr>"

text \<open>The health endpoint answers 503.\<close>

definition unhealthy_world :: world where
  "unhealthy_world =
     example_world\<lparr>http_get := (\<lambda>url t. HttpResponse
        \<lparr>status_code = 503, json_body = None\<rparr>)\<rparr>"

text \<open>The health endpoint answers 200 with a body that is not JSON.\<close>

definition html_health_world :: world where
  "html_health_world =
     example_world\<lparr>http_get := (\<lambda>url t. HttpResponse
        \<lparr>status_code = 200, json_body = None\<rparr>)\<rparr>"

text \<open>No ffmpeg executable: starting the process raises \<open>FileNotFoundError\<close>.\<close>

definition no_ffmpeg_world :: world where
  "no_ffmpeg_world = example_world\<lparr>spawn := (\<lambda>cmd. SpawnRaises FileNotFoundError)\<rparr>"

text \<open>ffmpeg fails on a video without an audio stream.\<close>

definition no_audio_world :: world where
  "no_audio_world =
     example_world\<lparr>spawn := (\<lambda>cmd. Exited 1
        (Utf8 ''Output file does not contain any stream''))\<rparr>"

text \<open>
  ffmpeg fails on a video without an audio stream and names the output file by its
  number in the diagnostic; pydub cannot decode the file either.
\<close>

definition numbered_diagnostic_world :: world where
  "numbered_diagnostic_world =
     example_world
       \<lparr>spawn := (\<lambda>cmd. Exited 1 (Utf8 ''Output file #0 does not contain any stream'')),
        from_file := (\<lambda>p. Inl (OtherException ''CouldntDecodeError''))\<rparr>"

text \<open>The transcription request times out, fails in transport, or returns no JSON.\<close>

definition timeout_world :: world where
  "timeout_world = example_world\<lparr>http_post := (\<lambda>req. HttpRaises RequestsTimeout)\<rparr>"

definition transport_error_world :: world where
  "transport_error_world =
     example_world\<lparr>http_post := (\<lambda>req. HttpRaises RequestsConnectionError)\<rparr>"

definition malformed_json_world :: world where
  "malformed_json_world =
     example_world\<lparr>http_post := (\<lambda>req. HttpResponse
        \<lparr>status_code = 200, json_body = None\<rparr>)\<rparr>"

text \<open>The service reports a language.\<close>

definition french_world :: world where
  "french_world = service_world (PDict [(''text'', PStr ''hi''), (''language'', PStr ''fr'')])"

text \<open>The service answers with JSON that is not an object.\<close>

definition list_reply_world :: world where
  "list_reply_world = service_world (PList [PInt 1])"

text \<open>The service answers with a text of spaces only.\<close>

definition blank_world :: world where
  "blank_world = service_world (PDict [(''text'', PStr ''  '')])"

text \<open>
  The service answers with two segments: the first has one word without a probability
  and without an end, the second has no field at all.
\<close>

definition first_segment :: pyval where
  "first_segment =
     PDict [(''text'', PStr ''hello''), (''start'', PFloat 0), (''end'', PFloat 2),
            (''words'', PList [PDict [(''word'', PStr ''hello''), (''start'', PInt 0)]])]"

definition segmented_reply :: "(string \<times> pyval) list" where
  "segmented_reply =
     [(''text'', PStr ''hello world''), (''segments'', PList [first_segment, PDict []])]"

definition segmented_world :: world where
  "segmented_world = service_world (PDict segmented_reply)"

text \<open>The language the service reports: the value under \<open>language\<close>, when the key is there.\<close>

fun reported_language :: "pyval \<Rightarrow> pyval option" where
  "reported_language (PDict d) = map_of d ''language''"
| "reported_language _ = None"

section \<open>Auxiliary facts\<close>

lemma bind_Inr_iff: "bind m f = Inr y \<longleftrightarrow> (\<exists>x. m = Inr x \<and> f x = Inr y)"
  by (cases m) (simp_all add: bind_def)

lemma bind_Inr [simp]: "bind (Inr x) f = f x"
  by (simp add: bind_def)

lemma bind_Inl [simp]: "bind (Inl e) f = Inl e"
  by (simp add: bind_def)

lemma py_get_Inr_iff:
  "py_get v k dflt = Inr x \<longleftrightarrow> (\<exists>d. v = PDict d \<and> x = dict_get d k dflt)"
  by (cases v) auto

lemma strip_Nil_iff: "strip s = [] \<longleftrightarrow> (\<forall>c \<in> set s. is_space c)"
proof
  assume "strip s = []"
  then have all: "\<forall>c \<in> set (dropWhile is_space s). is_space c"
    by (simp add: strip_def dropWhile_eq_Nil_conv)
  show "\<forall>c \<in> set s. is_space c"
  proof (cases "dropWhile is_space s")
    case Nil
    then show ?thesis by (simp add: dropWhile_eq_Nil_conv)
  next
    case (Cons a as)
    then have "\<not> is_space a" using hd_dropWhile [of is_space s] by simp
    with all Cons show ?thesis by simp
  qed
next
  assume "\<forall>c \<in> set s. is_space c"
  then have d: "dropWhile is_space s = []" by (simp add: dropWhile_eq_Nil_conv)
  show "strip s = []" unfolding strip_def d by simp
qed

lemma no_text_Inr_iff:
  "no_text v = Inr b \<longleftrightarrow>
     (\<not> truthy v \<and> b) \<or> (\<exists>s. v = PStr s \<and> s \<noteq> [] \<and> b = (strip s = []))"
  by (cases v) (auto simp: no_text_def)

lemma normalize_word_dict:
  "normalize_word (PDict wd) =
     Inr \<lparr>word = dict_get wd ''word'' (PStr []),
          word_start = dict_get wd ''start'' (PFloat 0),
          word_end = dict_get wd ''end'' (PFloat 0),
          probability = dict_get wd ''probability'' (PFloat 1)\<rparr>"
  by (simp add: normalize_word_def)

lemma normalize_word_Inr_iff: "normalize_word v = Inr wi \<longleftrightarrow> spec_copies_word v wi"
  by (cases v) (auto simp: normalize_word_def)

lemma words_loop_Inr_iff:
  "words_loop ws acc = Inr r \<longleftrightarrow> (\<exists>wis. list_all2 spec_copies_word ws wis \<and> r = acc @ wis)"
proof (induction ws arbitrary: acc)
  case Nil
  then show ?case by auto
next
  case (Cons v ws)
  show ?case
    by (auto simp: bind_Inr_iff Cons.IH list_all2_Cons1 normalize_word_Inr_iff)
qed

lemma words_loop_dicts: "list_all is_dict ws \<Longrightarrow> \<exists>r. words_loop ws acc = Inr r"
proof (induction ws arbitrary: acc)
  case Nil
  then show ?case by simp
next
  case (Cons v ws)
  then obtain wd where v: "v = PDict wd" by (cases v) simp_all
  from Cons show ?case by (simp add: v normalize_word_dict)
qed

lemma has_words_dict:
  "has_words (PDict sd) =
     Inr (case map_of sd ''words'' of None \<Rightarrow> False | Some ws \<Rightarrow> truthy ws)"
  by (simp add: has_words_def split: option.splits)

lemma normalize_segment_dict:
  "normalize_segment (PDict sd) =
     (case map_of sd ''words'' of
        None \<Rightarrow> Inr \<lparr>seg_text = dict_get sd ''text'' (PStr []),
                     seg_start = dict_get sd ''start'' (PFloat 0),
                     seg_end = dict_get sd ''end'' (PFloat 0), seg_words = []\<rparr>
      | Some ws \<Rightarrow>
          if truthy ws
          then bind (py_iter ws) (\<lambda>items. bind (words_loop items []) (\<lambda>wl.
                 Inr \<lparr>seg_text = dict_get sd ''text'' (PStr []),
                      seg_start = dict_get sd ''start'' (PFloat 0),
                      seg_end = dict_get sd ''end'' (PFloat 0), seg_words = wl\<rparr>))
          else Inr \<lparr>seg_text = dict_get sd ''text'' (PStr []),
                    seg_start = dict_get sd ''start'' (PFloat 0),
                    seg_end = dict_get sd ''end'' (PFloat 0), seg_words = []\<rparr>)"
  by (simp add: normalize_segment_def has_words_dict split: option.splits)

lemma normalize_segment_Inr_dict: "normalize_segment v = Inr si \<Longrightarrow> \<exists>sd. v = PDict sd"
  by (cases v) (simp_all add: normalize_segment_def)

text \<open>A truthy value whose items are all word objects is a list.\<close>

lemma py_iter_words_list:
  assumes "truthy ws" and "py_iter ws = Inr items" and "list_all2 spec_copies_word items wis"
  shows "ws = PList items"
proof (cases ws)
  case (PStr s)
  with assms(1) obtain c cs where "s = c # cs" by (cases s) simp_all
  with PStr assms(2,3) show ?thesis by (auto simp: list_all2_Cons1)
next
  case (PDict d)
  with assms(1) obtain kv kvs where "d = kv # kvs" by (cases d) simp_all
  with PDict assms(2,3) show ?thesis by (auto simp: list_all2_Cons1)
qed (use assms in simp_all)

lemma normalize_segment_copies:
  assumes "normalize_segment v = Inr si"
  shows "spec_copies_segment v si"
proof -
  from assms obtain sd where v: "v = PDict sd"
    using normalize_segment_Inr_dict by blast
  show ?thesis
  proof (cases "map_of sd ''words''")
    case None
    with assms v show ?thesis by (auto simp: normalize_segment_dict)
  next
    case (Some ws)
    show ?thesis
    proof (cases "truthy ws")
      case False
      with assms v Some have "seg_words si = []"
        by (auto simp: normalize_segment_dict)
      moreover from False have "ws = PList [] \<or> (\<forall>xs. ws \<noteq> PList xs)"
        by (cases ws) simp_all
      ultimately have "spec_copies_words (Some ws) (seg_words si)"
        by (cases ws) auto
      with assms v Some False show ?thesis
        by (auto simp: normalize_segment_dict)
    next
      case True
      with assms v Some obtain items wl where
        it: "py_iter ws = Inr items" and wl: "words_loop items [] = Inr wl" and
        si: "si = \<lparr>seg_text = dict_get sd ''text'' (PStr []),
                   seg_start = dict_get sd ''start'' (PFloat 0),
                   seg_end = dict_get sd ''end'' (PFloat 0), seg_words = wl\<rparr>"
        by (auto simp: normalize_segment_dict bind_Inr_iff)
      from wl have all: "list_all2 spec_copies_word items wl"
        by (simp add: words_loop_Inr_iff)
      with True it have "ws = PList items" by (rule py_iter_words_list)
      with all si v Some show ?thesis by simp
    qed
  qed
qed

lemma segments_loop_Inr_iff:
  "segments_loop ss acc = Inr r \<longleftrightarrow>
     (\<exists>sis. list_all2 (\<lambda>v si. normalize_segment v = Inr si) ss sis \<and> r = acc @ sis)"
proof (induction ss arbitrary: acc)
  case Nil
  then show ?case by auto
next
  case (Cons v ss)
  show ?case
    by (auto simp: bind_Inr_iff Cons.IH list_all2_Cons1)
qed

text \<open>A truthy value whose items are all segment objects is a list.\<close>

lemma py_iter_segments_list:
  assumes "truthy segs" and "py_iter segs = Inr items"
    and "list_all2 (\<lambda>v si. normalize_segment v = Inr si) items sis"
  shows "segs = PList items"
proof (cases segs)
  case (PStr s)
  with assms(1) obtain c cs where "s = c # cs" by (cases s) simp_all
  with PStr assms(2,3) show ?thesis
    by (auto simp: list_all2_Cons1 dest: normalize_segment_Inr_dict)
next
  case (PDict d)
  with assms(1) obtain kv kvs where "d = kv # kvs" by (cases d) simp_all
  with PDict assms(2,3) show ?thesis
    by (auto simp: list_all2_Cons1 dest: normalize_segment_Inr_dict)
qed (use assms in simp_all)

lemma normalize_basic_segment:
  "normalize_segment (basic_segment tv) =
     Inr \<lparr>seg_text = tv, seg_start = PFloat 0, seg_end = PFloat 0, seg_words = []\<rparr>"
  by (simp add: basic_segment_def normalize_segment_dict dict_get_def)

text \<open>What a returned transcript says about the response it was made from.\<close>

lemma process_result_Some:
  assumes "process_result lang result = Inr (Some t)"
  shows "\<exists>d s items.
           result = PDict d \<and> dict_get d ''text'' (PStr []) = PStr s \<and> s \<noteq> [] \<and>
           strip s \<noteq> [] \<and> transcript_text t = PStr s \<and>
           language t = dict_get d ''language'' (language_default lang) \<and>
           py_iter (if \<not> truthy (dict_get d ''segments'' (PList []))
                    then PList [basic_segment (PStr s)]
                    else dict_get d ''segments'' (PList [])) = Inr items \<and>
           list_all2 (\<lambda>v si. normalize_segment v = Inr si) items (segments t)"
proof -
  from assms have tr: "truthy result"
    by (auto simp: process_result_def split: if_splits)
  with assms obtain tv blank where
    tv: "py_get result ''text'' (PStr []) = Inr tv" and
    bl: "no_text tv = Inr blank" and
    rest: "(if blank then Inr None
            else bind (py_get result ''segments'' (PList [])) (\<lambda>segs.
                 bind (py_iter (if \<not> truthy segs then PList [basic_segment tv] else segs))
                   (\<lambda>items.
                 bind (segments_loop items []) (\<lambda>segment_data.
                 bind (py_get result ''language'' (language_default lang))
                   (\<lambda>detected_language.
                 Inr (Some \<lparr>transcript_text = tv, segments = segment_data,
                            language = detected_language\<rparr>)))))) = Inr (Some t)"
    by (auto simp: process_result_def bind_Inr_iff)
  from tv obtain d where d: "result = PDict d" and tvd: "tv = dict_get d ''text'' (PStr [])"
    by (auto simp: py_get_Inr_iff)
  from rest have nb: "\<not> blank" by (auto split: if_splits)
  with bl obtain s where s: "tv = PStr s" "s \<noteq> []" "strip s \<noteq> []"
    by (auto simp: no_text_Inr_iff)
  from rest nb d obtain items segment_data where
    it: "py_iter (if \<not> truthy (dict_get d ''segments'' (PList []))
                  then PList [basic_segment tv]
                  else dict_get d ''segments'' (PList [])) = Inr items" and
    sl: "segments_loop items [] = Inr segment_data" and
    t: "t = \<lparr>transcript_text = tv, segments = segment_data,
             language = dict_get d ''language'' (language_default lang)\<rparr>"
    by (auto simp: bind_Inr_iff)
  from sl have ll: "list_all2 (\<lambda>v si. normalize_segment v = Inr si) items (segments t)"
    by (simp add: segments_loop_Inr_iff t)
  from tvd s(1) have dt: "dict_get d ''text'' (PStr []) = PStr s" by simp
  have tt: "transcript_text t = PStr s" and
    lt: "language t = dict_get d ''language'' (language_default lang)"
    by (simp_all add: t s(1))
  from it have it': "py_iter (if \<not> truthy (dict_get d ''segments'' (PList []))
                  then PList [basic_segment (PStr s)]
                  else dict_get d ''segments'' (PList [])) = Inr items"
    by (simp only: s(1))
  from d dt s(2,3) tt lt it' ll show ?thesis by blast
qed

lemma transcribe_Some:
  "transcribe w self p = Inr (Some t) \<longleftrightarrow>
     process_result (self_language self)
       (client_transcribe w (whisper_client self) p (self_language self)) = Inr (Some t)"
  by (auto simp: transcribe_def transcribe_body_def split: sum.splits)

lemma transcribe_total: "\<exists>r. transcribe w self p = Inr r"
  by (simp add: transcribe_def split: sum.splits)

lemma client_transcribe_failure:
  "client_transcribe_body w c p lang = Inl e \<Longrightarrow> client_transcribe w c p lang = PNone"
  by (simp add: client_transcribe_def)

lemma transcribe_no_result:
  "client_transcribe w (whisper_client self) p (self_language self) = PNone \<Longrightarrow>
     transcribe w self p = Inr None"
  by (simp add: transcribe_def transcribe_body_def process_result_def)

lemmas world_defs =
  service_world_def example_world_def unreachable_world_def unhealthy_world_def
  html_health_world_def no_ffmpeg_world_def no_audio_world_def timeout_world_def
  transport_error_world_def malformed_json_world_def example_url_def example_client_def
  example_processor_def example_audio_def french_world_def list_reply_world_def
  blank_world_def first_segment_def segmented_reply_def segmented_world_def

lemmas init_defs =
  WhisperClient_init_def health_probe_def AudioProcessor_init_def subprocess_run_def
  rstrip_slash_def

section \<open>Construction and the liveness probe\<close>

lemma WhisperClient_init_trace:
  "fst (WhisperClient_init w url tmo) = [HttpGet (rstrip_slash url @ ''/health'') 10]"
  by (simp add: WhisperClient_init_def Let_def)

lemma WhisperClient_init_raises:
  "health_probe w (rstrip_slash url) = Inl e \<Longrightarrow>
     WhisperClient_init w url tmo =
       ([HttpGet (rstrip_slash url @ ''/health'') 10], Inl (ConnectionError url))"
  by (simp add: WhisperClient_init_def Let_def)

lemma AudioProcessor_init_raises:
  "WhisperClient_init w url tmo = (tr, Inl e) \<Longrightarrow>
     AudioProcessor_init w lang url tmo = (tr, Inl e)"
  by (simp add: AudioProcessor_init_def Let_def)

text \<open>
  C1, as the code has it. Constructing the client performs exactly one call, the GET of
  \<open>{base}/health\<close> with a timeout of 10 seconds. When that request raises (the service
  is unreachable), the constructor of the client and so the constructor of the
  AudioProcessor raise \<open>ConnectionError\<close> and return no instance. When the request
  is answered with a status other than 200, the client is constructed.
\<close>

theorem construction_probe:
  "fst (WhisperClient_init w url tmo) = [HttpGet (rstrip_slash url @ ''/health'') 10] \<and>
   (http_get w (rstrip_slash url @ ''/health'') 10 = HttpRaises e \<longrightarrow>
      snd (WhisperClient_init w url tmo) = Inl (ConnectionError url) \<and>
      AudioProcessor_init w lang url tmo =
        ([HttpGet (rstrip_slash url @ ''/health'') 10], Inl (ConnectionError url))) \<and>
   (http_get w (rstrip_slash url @ ''/health'') 10 = HttpResponse r \<and> status_code r \<noteq> 200 \<longrightarrow>
      snd (WhisperClient_init w url tmo) =
        Inr \<lparr>api_url = rstrip_slash url, timeout = tmo,
             transcribe_url = rstrip_slash url @ ''/v1/audio/transcriptions''\<rparr>)"
proof (intro conjI impI)
  show "fst (WhisperClient_init w url tmo) = [HttpGet (rstrip_slash url @ ''/health'') 10]"
    by (rule WhisperClient_init_trace)
next
  assume "http_get w (rstrip_slash url @ ''/health'') 10 = HttpRaises e"
  then have "health_probe w (rstrip_slash url) = Inl e"
    by (simp add: health_probe_def)
  then have c: "WhisperClient_init w url tmo =
      ([HttpGet (rstrip_slash url @ ''/health'') 10], Inl (ConnectionError url))"
    by (rule WhisperClient_init_raises)
  then show "snd (WhisperClient_init w url tmo) = Inl (ConnectionError url)" by simp
  from c show "AudioProcessor_init w lang url tmo =
      ([HttpGet (rstrip_slash url @ ''/health'') 10], Inl (ConnectionError url))"
    by (rule AudioProcessor_init_raises)
next
  assume "http_get w (rstrip_slash url @ ''/health'') 10 = HttpResponse r \<and> status_code r \<noteq> 200"
  then have "health_probe w (rstrip_slash url) = Inr ()"
    by (simp add: health_probe_def)
  then show "snd (WhisperClient_init w url tmo) =
      Inr \<lparr>api_url = rstrip_slash url, timeout = tmo,
           transcribe_url = rstrip_slash url @ ''/v1/audio/transcriptions''\<rparr>"
    by (simp add: WhisperClient_init_def Let_def)
qed

theorem construction_probe_witness:
  "http_get unreachable_world (rstrip_slash example_url @ ''/health'') 10 =
     HttpRaises RequestsConnectionError \<and>
   AudioProcessor_init unreachable_world None example_url 300 =
     ([HttpGet ''http://whisper:16000/health'' 10], Inl (ConnectionError example_url)) \<and>
   http_get unhealthy_world (rstrip_slash example_url @ ''/health'') 10 =
     HttpResponse \<lparr>status_code = 503, json_body = None\<rparr> \<and>
   snd (WhisperClient_init unhealthy_world example_url 300) = Inr example_client"
  using
    construction_probe [of unreachable_world example_url 300 RequestsConnectionError None]
    construction_probe [of unhealthy_world example_url 300 _ _
      "\<lparr>status_code = 503, json_body = None\<rparr>"]
  by (simp add: world_defs rstrip_slash_def)

text \<open>
  C1 as stated fails: a health endpoint that answers 503 does not stop the construction;
  the client and the AudioProcessor are returned.
\<close>

theorem non_200_probe_counterexample:
  "http_get unhealthy_world (rstrip_slash example_url @ ''/health'') 10 =
     HttpResponse \<lparr>status_code = 503, json_body = None\<rparr> \<and>
   snd (WhisperClient_init unhealthy_world example_url 300) = Inr example_client \<and>
   snd (AudioProcessor_init unhealthy_world None example_url 300) =
     Inr (example_processor None)"
  by (simp add: world_defs init_defs)

text \<open>
  C10. When the health endpoint answers 200 with a body that is not JSON, the parse
  raises inside the guarded region: the constructor fails with the same
  \<open>ConnectionError\<close>, after the same call, as when the endpoint cannot be reached, and
  so does the constructor of the AudioProcessor.
\<close>

theorem probe_200_without_json_fails:
  assumes "http_get w (rstrip_slash url @ ''/health'') 10 = HttpResponse r"
    and "status_code r = 200" and "json_body r = None"
    and "http_get w' (rstrip_slash url @ ''/health'') 10 = HttpRaises e"
  shows "snd (WhisperClient_init w url tmo) = Inl (ConnectionError url) \<and>
         WhisperClient_init w url tmo = WhisperClient_init w' url tmo \<and>
         snd (AudioProcessor_init w lang url tmo) = Inl (ConnectionError url)"
proof -
  from assms(1-3) have "health_probe w (rstrip_slash url) = Inl JSONDecodeError"
    by (simp add: health_probe_def)
  then have a: "WhisperClient_init w url tmo =
      ([HttpGet (rstrip_slash url @ ''/health'') 10], Inl (ConnectionError url))"
    by (rule WhisperClient_init_raises)
  from assms(4) have "health_probe w' (rstrip_slash url) = Inl e"
    by (simp add: health_probe_def)
  then have b: "WhisperClient_init w' url tmo =
      ([HttpGet (rstrip_slash url @ ''/health'') 10], Inl (ConnectionError url))"
    by (rule WhisperClient_init_raises)
  from a have "AudioProcessor_init w lang url tmo =
      ([HttpGet (rstrip_slash url @ ''/health'') 10], Inl (ConnectionError url))"
    by (rule AudioProcessor_init_raises)
  with a b show ?thesis by simp
qed

theorem probe_200_without_json_fails_witness:
  "snd (WhisperClient_init html_health_world example_url 300) =
     Inl (ConnectionError example_url) \<and>
   WhisperClient_init html_health_world example_url 300 =
     WhisperClient_init unreachable_world example_url 300 \<and>
   snd (AudioProcessor_init html_health_world None example_url 300) =
     Inl (ConnectionError example_url)"
proof -
  have a: "http_get html_health_world (rstrip_slash example_url @ ''/health'') 10 =
      HttpResponse \<lparr>status_code = 200, json_body = None\<rparr>"
    by (simp add: world_defs)
  have b: "http_get unreachable_world (rstrip_slash example_url @ ''/health'') 10 =
      HttpRaises RequestsConnectionError"
    by (simp add: world_defs)
  show ?thesis
    by (rule probe_200_without_json_fails [OF a _ _ b]) simp_all
qed

section \<open>Audio extraction\<close>

lemma pydub_body_starts_with_load:
  "\<exists>rest. fst (pydub_body w video_path audio_path) = FromFile (path_str video_path) # rest"
  by (simp add: pydub_body_def split: sum.splits option.splits)

text \<open>
  When ffmpeg exits with a failure whose readable diagnostic does not carry the marker,
  the pydub routine runs; its failure, and only its failure, becomes the
  \<open>RuntimeError\<close> with the install guidance.
\<close>

lemma extract_audio_falls_back:
  assumes "mkdir w output_dir = None"
    and "spawn w (ffmpeg_command video_path (output_dir @ [''audio.wav''])) =
           Exited rc (Utf8 error_output)"
    and "rc \<noteq> 0"
    and "\<not> str_contains no_stream_marker error_output"
  shows "extract_audio w video_path output_dir =
           ([Mkdir output_dir, Run (ffmpeg_command video_path (output_dir @ [''audio.wav'']))] @
              fst (pydub_body w video_path (output_dir @ [''audio.wav''])),
            case snd (pydub_body w video_path (output_dir @ [''audio.wav''])) of
              Inl e2 \<Rightarrow> Inl (RuntimeError install_guidance)
            | Inr r \<Rightarrow> Inr r)"
  using assms
  by (simp add: extract_audio_def subprocess_run_def pydub_fallback_def Let_def
           split: prod.splits sum.splits)

text \<open>
  Where the test of the code does hold: when ffmpeg exits with a failure and its
  decoded stderr contains the literal \<open>Output file does not contain any stream\<close>,
  \<open>extract_audio\<close> returns \<open>None\<close> after the \<open>mkdir\<close> and the ffmpeg run only.
\<close>

lemma extract_audio_marker_gives_none:
  assumes "mkdir w output_dir = None"
    and "spawn w (ffmpeg_command video_path (output_dir @ [''audio.wav''])) =
           Exited rc (Utf8 error_output)"
    and "rc \<noteq> 0"
    and "str_contains no_stream_marker error_output"
  shows "extract_audio w video_path output_dir =
           ([Mkdir output_dir, Run (ffmpeg_command video_path (output_dir @ [''audio.wav'']))],
            Inr None)"
  using assms
  by (simp add: extract_audio_def subprocess_run_def Let_def)

lemma extract_audio_marker_example:
  "extract_audio no_audio_world [''in'', ''clip.mp4''] [''out''] =
     ([Mkdir [''out''],
       Run (ffmpeg_command [''in'', ''clip.mp4''] ([''out''] @ [''audio.wav'']))],
      Inr None)"
proof -
  have a: "mkdir no_audio_world [''out''] = None"
    by (simp add: world_defs)
  have b: "spawn no_audio_world (ffmpeg_command [''in'', ''clip.mp4''] ([''out''] @ [''audio.wav''])) =
      Exited 1 (Utf8 ''Output file does not contain any stream'')"
    by (simp add: world_defs)
  have c: "(1::int) \<noteq> 0" by simp
  have d: "str_contains no_stream_marker ''Output file does not contain any stream''"
    by (simp add: no_stream_marker_def)
  show ?thesis
    by (rule extract_audio_marker_gives_none [OF a b c d])
qed

text \<open>
  C4 at the failing input: a video without an audio stream, and an ffmpeg whose
  diagnostic for it reads \<open>Output file #0 does not contain any stream\<close>. The literal
  the code looks for is not in that text, so \<open>extract_audio\<close> does not return
  \<open>None\<close>: it goes on to the pydub routine, which cannot decode the file either, and
  raises the \<open>RuntimeError\<close> with the install guidance.
\<close>

theorem extract_audio_numbered_diagnostic:
  "spawn numbered_diagnostic_world (ffmpeg_command [''in'', ''clip.mp4''] [''out'', ''audio.wav'']) =
     Exited 1 (Utf8 ''Output file #0 does not contain any stream'') \<and>
   \<not> str_contains no_stream_marker ''Output file #0 does not contain any stream'' \<and>
   extract_audio numbered_diagnostic_world [''in'', ''clip.mp4''] [''out''] =
     ([Mkdir [''out''],
       Run (ffmpeg_command [''in'', ''clip.mp4''] [''out'', ''audio.wav'']),
       FromFile ''in/clip.mp4''],
      Inl (RuntimeError install_guidance))"
  by (simp add: numbered_diagnostic_world_def world_defs extract_audio_def subprocess_run_def
        pydub_fallback_def pydub_body_def no_stream_marker_def Let_def)

text \<open>
  C2 at the failing input: no ffmpeg executable. The AudioProcessor is constructed with
  \<open>has_ffmpeg = False\<close>, and \<open>extract_audio\<close> then raises \<open>FileNotFoundError\<close>
  after the \<open>mkdir\<close> and the attempt to start ffmpeg: no call of the pydub routine is
  made and the error is not the one with the install guidance.
\<close>

theorem extract_audio_missing_tool:
  "snd (AudioProcessor_init no_ffmpeg_world None example_url 300) =
     Inr (example_processor None\<lparr>has_ffmpeg := False\<rparr>) \<and>
   extract_audio no_ffmpeg_world [''in'', ''clip.mp4''] [''out''] =
     ([Mkdir [''out''],
       Run (ffmpeg_command [''in'', ''clip.mp4''] [''out'', ''audio.wav''])],
      Inl FileNotFoundError)"
  by (simp add: world_defs init_defs extract_audio_def Let_def)

section \<open>Transcription\<close>

lemmas normalize_defs =
  process_result_def no_text_def basic_segment_def language_default_def normalize_segment_def
  has_words_def normalize_word_def dict_get_def strip_def is_space_def

lemma client_transcribe_example:
  "client_transcribe (service_world reply) example_client example_audio lang = reply"
  by (simp add: service_world_def client_transcribe_def client_transcribe_body_def
        raise_for_status_def response_json_def)

text \<open>
  C3. \<open>transcribe\<close> always returns. A request that raises (a timeout, a transport
  error, any other exception), a response whose body is not JSON, a file that cannot be
  opened, and any exception raised while the result is processed all give \<open>None\<close>.
\<close>

theorem transcribe_never_raises:
  "(\<exists>r. transcribe w self p = Inr r) \<and>
   (open_rb w p = None \<and>
    http_post w (transcription_request (whisper_client self) p (self_language self)) =
      HttpRaises e \<longrightarrow> transcribe w self p = Inr None) \<and>
   (open_rb w p = None \<and>
    http_post w (transcription_request (whisper_client self) p (self_language self)) =
      HttpResponse r \<and> json_body r = None \<longrightarrow> transcribe w self p = Inr None) \<and>
   (open_rb w p = Some e \<longrightarrow> transcribe w self p = Inr None) \<and>
   (transcribe_body w self p = Inl e \<longrightarrow> transcribe w self p = Inr None)"
proof (intro conjI impI)
  show "\<exists>r. transcribe w self p = Inr r" by (rule transcribe_total)
next
  assume "open_rb w p = None \<and>
    http_post w (transcription_request (whisper_client self) p (self_language self)) =
      HttpRaises e"
  then have "client_transcribe_body w (whisper_client self) p (self_language self) = Inl e"
    by (simp add: client_transcribe_body_def)
  then show "transcribe w self p = Inr None"
    by (intro transcribe_no_result client_transcribe_failure)
next
  assume a: "open_rb w p = None \<and>
    http_post w (transcription_request (whisper_client self) p (self_language self)) =
      HttpResponse r \<and> json_body r = None"
  then have "\<exists>e'. client_transcribe_body w (whisper_client self) p (self_language self) = Inl e'"
    by (simp add: client_transcribe_body_def raise_for_status_def response_json_def)
  then show "transcribe w self p = Inr None"
    by (auto intro: transcribe_no_result client_transcribe_failure)
next
  assume "open_rb w p = Some e"
  then have "client_transcribe_body w (whisper_client self) p (self_language self) = Inl e"
    by (simp add: client_transcribe_body_def)
  then show "transcribe w self p = Inr None"
    by (intro transcribe_no_result client_transcribe_failure)
next
  assume "transcribe_body w self p = Inl e"
  then show "transcribe w self p = Inr None" by (simp add: transcribe_def)
qed

theorem transcribe_never_raises_witness:
  "http_post timeout_world (transcription_request example_client example_audio None) =
     HttpRaises RequestsTimeout \<and>
   transcribe timeout_world (example_processor None) example_audio = Inr None \<and>
   http_post transport_error_world (transcription_request example_client example_audio None) =
     HttpRaises RequestsConnectionError \<and>
   transcribe transport_error_world (example_processor None) example_audio = Inr None \<and>
   http_post malformed_json_world (transcription_request example_client example_audio None) =
     HttpResponse \<lparr>status_code = 200, json_body = None\<rparr> \<and>
   transcribe malformed_json_world (example_processor None) example_audio = Inr None \<and>
   transcribe_body list_reply_world (example_processor None) example_audio =
     Inl AttributeError \<and>
   transcribe list_reply_world (example_processor None) example_audio = Inr None"
proof -
  have p: "whisper_client (example_processor None) = example_client"
    "self_language (example_processor None) = None"
    by (simp_all add: example_processor_def)
  have a: "open_rb timeout_world example_audio = None"
    "http_post timeout_world (transcription_request example_client example_audio None) =
       HttpRaises RequestsTimeout"
    by (simp_all add: world_defs)
  have b: "open_rb transport_error_world example_audio = None"
    "http_post transport_error_world (transcription_request example_client example_audio None) =
       HttpRaises RequestsConnectionError"
    by (simp_all add: world_defs)
  have c: "open_rb malformed_json_world example_audio = None"
    "http_post malformed_json_world (transcription_request example_client example_audio None) =
       HttpResponse \<lparr>status_code = 200, json_body = None\<rparr>"
    by (simp_all add: world_defs)
  have d: "transcribe_body list_reply_world (example_processor None) example_audio =
      Inl AttributeError"
    by (simp add: transcribe_body_def p list_reply_world_def client_transcribe_example
          process_result_def)
  from a b c d show ?thesis
    using
      transcribe_never_raises [where w = timeout_world and self = "example_processor None"
        and p = example_audio and e = RequestsTimeout]
      transcribe_never_raises [where w = transport_error_world
        and self = "example_processor None" and p = example_audio
        and e = RequestsConnectionError]
      transcribe_never_raises [where w = malformed_json_world
        and self = "example_processor None" and p = example_audio
        and r = "\<lparr>status_code = 200, json_body = None\<rparr>"]
      transcribe_never_raises [where w = list_reply_world and self = "example_processor None"
        and p = example_audio and e = AttributeError]
    by (simp add: p)
qed

subsection \<open>Language\<close>

lemma AudioProcessor_init_language:
  assumes "AudioProcessor_init w lang url tmo = (tr, Inr self)"
  shows "self_language self =
           (case lang of None \<Rightarrow> None | Some l \<Rightarrow> if l \<noteq> [] then Some l else None)"
  using assms
  by (auto simp: AudioProcessor_init_def Let_def
           split: prod.splits sum.splits exn.splits option.splits if_splits)

text \<open>
  C5. The language of a returned transcript is the value the service reports under
  \<open>language\<close> when that key is present; otherwise the language hint of the processor
  when it has one (a non-empty string); otherwise the literal \<open>unknown\<close>.
\<close>

theorem language_precedence:
  assumes "transcribe w self p = Inr (Some t)"
  shows "language t =
           (case reported_language
                   (client_transcribe w (whisper_client self) p (self_language self)) of
              Some reported \<Rightarrow> reported
            | None \<Rightarrow>
                (case self_language self of
                   None \<Rightarrow> PStr ''unknown''
                 | Some h \<Rightarrow> if h \<noteq> [] then PStr h else PStr ''unknown''))"
proof -
  from assms have "process_result (self_language self)
      (client_transcribe w (whisper_client self) p (self_language self)) = Inr (Some t)"
    by (simp add: transcribe_Some)
  then obtain d where
    "client_transcribe w (whisper_client self) p (self_language self) = PDict d" and
    "language t = dict_get d ''language'' (language_default (self_language self))"
    using process_result_Some by blast
  then show ?thesis
    by (simp add: dict_get_def language_default_def split: option.splits)
qed

theorem language_precedence_witness:
  "(\<exists>t. transcribe french_world (example_processor (Some ''en'')) example_audio =
          Inr (Some t) \<and> language t = PStr ''fr'') \<and>
   (\<exists>t. transcribe example_world (example_processor (Some ''en'')) example_audio =
          Inr (Some t) \<and> language t = PStr ''en'') \<and>
   (\<exists>t. transcribe example_world (example_processor None) example_audio =
          Inr (Some t) \<and> language t = PStr ''unknown'')"
proof -
  have p: "whisper_client (example_processor lang) = example_client"
    "self_language (example_processor lang) = lang" for lang
    by (simp_all add: example_processor_def)
  have a: "\<exists>t. transcribe french_world (example_processor (Some ''en'')) example_audio =
      Inr (Some t)"
    by (simp add: transcribe_def transcribe_body_def p french_world_def
          client_transcribe_example normalize_defs)
  have b: "\<exists>t. transcribe example_world (example_processor lang) example_audio =
      Inr (Some t)" for lang
    by (simp add: transcribe_def transcribe_body_def p example_world_def
          client_transcribe_example normalize_defs)
  from a obtain t1 where t1:
    "transcribe french_world (example_processor (Some ''en'')) example_audio = Inr (Some t1)" ..
  from b obtain t2 where t2:
    "transcribe example_world (example_processor (Some ''en'')) example_audio = Inr (Some t2)"
    by blast
  from b obtain t3 where t3:
    "transcribe example_world (example_processor None) example_audio = Inr (Some t3)"
    by blast
  have "language t1 = PStr ''fr''"
    using language_precedence [OF t1]
    by (simp add: p french_world_def client_transcribe_example)
  moreover have "language t2 = PStr ''en''"
    using language_precedence [OF t2]
    by (simp add: p example_world_def client_transcribe_example)
  moreover have "language t3 = PStr ''unknown''"
    using language_precedence [OF t3]
    by (simp add: p example_world_def client_transcribe_example)
  ultimately show ?thesis using t1 t2 t3 by simp
qed

subsection \<open>Segments\<close>

lemma nonblank_strip: "\<exists>c \<in> set s. \<not> is_space c \<Longrightarrow> s \<noteq> [] \<and> strip s \<noteq> []"
  by (auto simp: strip_Nil_iff)

lemma process_result_basic:
  assumes "map_of d ''text'' = Some (PStr s)" and "\<exists>c \<in> set s. \<not> is_space c"
    and "\<not> truthy (dict_get d ''segments'' (PList []))"
  shows "process_result lang (PDict d) =
           Inr (Some \<lparr>transcript_text = PStr s,
                      segments = [\<lparr>seg_text = PStr s, seg_start = PFloat 0,
                                   seg_end = PFloat 0, seg_words = []\<rparr>],
                      language = dict_get d ''language'' (language_default lang)\<rparr>)"
proof -
  from assms(1) have d: "d \<noteq> []" by auto
  from assms(1) have t: "dict_get d ''text'' (PStr []) = PStr s"
    by (simp add: dict_get_def)
  from assms(2) have s: "s \<noteq> []" "strip s \<noteq> []"
    using nonblank_strip by blast+
  then have n: "no_text (PStr s) = Inr False" by (simp add: no_text_def)
  show ?thesis
    by (simp add: process_result_def d t n assms(3) normalize_basic_segment)
qed

text \<open>
  C6. When the text of the raw result is a string with a character that is not
  whitespace, and the \<open>segments\<close> field is absent or the empty array, the transcript has
  exactly one segment: the full text, start 0.0, end 0.0, no words.
\<close>

theorem synthesized_segment:
  assumes "client_transcribe w (whisper_client self) p (self_language self) = PDict d"
    and "map_of d ''text'' = Some (PStr s)"
    and "\<exists>c \<in> set s. \<not> is_space c"
    and "map_of d ''segments'' = None \<or> map_of d ''segments'' = Some (PList [])"
  shows "\<exists>t. transcribe w self p = Inr (Some t) \<and> transcript_text t = PStr s \<and>
              segments t = [\<lparr>seg_text = PStr s, seg_start = PFloat 0, seg_end = PFloat 0,
                              seg_words = []\<rparr>]"
proof -
  from assms(4) have "\<not> truthy (dict_get d ''segments'' (PList []))"
    by (auto simp: dict_get_def)
  with assms(2,3) have "process_result (self_language self) (PDict d) =
      Inr (Some \<lparr>transcript_text = PStr s,
                 segments = [\<lparr>seg_text = PStr s, seg_start = PFloat 0,
                              seg_end = PFloat 0, seg_words = []\<rparr>],
                 language = dict_get d ''language''
                   (language_default (self_language self))\<rparr>)"
    by (rule process_result_basic)
  with assms(1) show ?thesis
    by (simp add: transcribe_def transcribe_body_def)
qed

theorem synthesized_segment_witness:
  "\<exists>t. transcribe example_world (example_processor None) example_audio = Inr (Some t) \<and>
       transcript_text t = PStr ''hi'' \<and>
       segments t = [\<lparr>seg_text = PStr ''hi'', seg_start = PFloat 0, seg_end = PFloat 0,
                       seg_words = []\<rparr>]"
proof -
  have a: "client_transcribe example_world (whisper_client (example_processor None))
      example_audio (self_language (example_processor None)) = PDict [(''text'', PStr ''hi'')]"
    by (simp add: example_processor_def example_world_def client_transcribe_example)
  have b: "map_of [(''text'', PStr ''hi'')] ''text'' = Some (PStr ''hi'')" by simp
  have c: "\<exists>c \<in> set ''hi''. \<not> is_space c" by (simp add: is_space_def)
  have d: "map_of [(''text'', PStr ''hi'')] ''segments'' = None \<or>
      map_of [(''text'', PStr ''hi'')] ''segments'' = Some (PList [])"
    by simp
  show ?thesis
    by (rule synthesized_segment [OF a b c d])
qed

text \<open>
  The segments of a returned transcript: the synthesized one when the \<open>segments\<close> field
  is absent or falsy, otherwise a copy of each raw segment, and the field is a list.
\<close>

lemma process_result_segments:
  assumes "process_result lang (PDict d) = Inr (Some t)"
  shows "if truthy (dict_get d ''segments'' (PList []))
         then \<exists>raw. dict_get d ''segments'' (PList []) = PList raw \<and> raw \<noteq> [] \<and>
                list_all2 spec_copies_segment raw (segments t)
         else segments t = [\<lparr>seg_text = transcript_text t, seg_start = PFloat 0,
                               seg_end = PFloat 0, seg_words = []\<rparr>]"
proof -
  from process_result_Some [OF assms] obtain s items where
    tt: "transcript_text t = PStr s" and
    it: "py_iter (if \<not> truthy (dict_get d ''segments'' (PList []))
                  then PList [basic_segment (PStr s)]
                  else dict_get d ''segments'' (PList [])) = Inr items" and
    ll: "list_all2 (\<lambda>v si. normalize_segment v = Inr si) items (segments t)"
    by auto
  show ?thesis
  proof (cases "truthy (dict_get d ''segments'' (PList []))")
    case True
    with it have "py_iter (dict_get d ''segments'' (PList [])) = Inr items" by simp
    with True have l: "dict_get d ''segments'' (PList []) = PList items"
      using ll by (rule py_iter_segments_list)
    with True have "items \<noteq> []" by auto
    moreover from ll have "list_all2 spec_copies_segment items (segments t)"
      by (rule list_all2_mono) (rule normalize_segment_copies)
    ultimately show ?thesis using True l by simp
  next
    case False
    with it have "items = [basic_segment (PStr s)]" by simp
    with ll have "segments t = [\<lparr>seg_text = PStr s, seg_start = PFloat 0,
        seg_end = PFloat 0, seg_words = []\<rparr>]"
      by (auto simp: list_all2_Cons1 normalize_basic_segment)
    with False tt show ?thesis by simp
  qed
qed

text \<open>
  C7. When the raw result has a non-empty array of segments and a transcript is
  returned, the segments of the transcript are, one for one and in order, the raw
  segments copied: text, start and end with the defaults \<open>""\<close>, 0.0 and 0.0, and every
  word entry with word, start, end and probability, the probability being 1.0 and the
  timestamps 0.0 when missing.
\<close>

theorem segments_copied:
  assumes "transcribe w self p = Inr (Some t)"
    and "client_transcribe w (whisper_client self) p (self_language self) = PDict d"
    and "map_of d ''segments'' = Some (PList raw)"
    and "raw \<noteq> []"
  shows "list_all2 spec_copies_segment raw (segments t)"
proof -
  from assms(1,2) have "process_result (self_language self) (PDict d) = Inr (Some t)"
    by (simp add: transcribe_Some)
  from process_result_segments [OF this] assms(3,4) show ?thesis
    by (simp add: dict_get_def)
qed

theorem segments_copied_witness:
  "\<exists>t. transcribe segmented_world (example_processor None) example_audio = Inr (Some t) \<and>
       segments t =
         [\<lparr>seg_text = PStr ''hello'', seg_start = PFloat 0, seg_end = PFloat 2,
           seg_words = [\<lparr>word = PStr ''hello'', word_start = PInt 0, word_end = PFloat 0,
                         probability = PFloat 1\<rparr>]\<rparr>,
          \<lparr>seg_text = PStr [], seg_start = PFloat 0, seg_end = PFloat 0, seg_words = []\<rparr>]"
proof -
  have p: "whisper_client (example_processor None) = example_client"
    "self_language (example_processor None) = None"
    by (simp_all add: example_processor_def)
  have a: "client_transcribe segmented_world (whisper_client (example_processor None))
      example_audio (self_language (example_processor None)) = PDict segmented_reply"
    by (simp add: p segmented_world_def client_transcribe_example)
  have "\<exists>t. transcribe segmented_world (example_processor None) example_audio = Inr (Some t)"
    by (simp add: transcribe_def transcribe_body_def p segmented_world_def
          client_transcribe_example segmented_reply_def first_segment_def normalize_defs)
  then obtain t where
    t: "transcribe segmented_world (example_processor None) example_audio = Inr (Some t)" ..
  have b: "map_of segmented_reply ''segments'' = Some (PList [first_segment, PDict []])"
    by (simp add: segmented_reply_def)
  have c: "[first_segment, PDict []] \<noteq> []" by simp
  from segments_copied [OF t a b c]
  have "list_all2 spec_copies_segment [first_segment, PDict []] (segments t)" .
  then have "segments t =
      [\<lparr>seg_text = PStr ''hello'', seg_start = PFloat 0, seg_end = PFloat 2,
        seg_words = [\<lparr>word = PStr ''hello'', word_start = PInt 0, word_end = PFloat 0,
                      probability = PFloat 1\<rparr>]\<rparr>,
       \<lparr>seg_text = PStr [], seg_start = PFloat 0, seg_end = PFloat 0, seg_words = []\<rparr>]"
    by (auto simp: list_all2_Cons1 first_segment_def dict_get_def)
  with t show ?thesis by simp
qed

text \<open>
  C9. A returned transcript whose text is non-empty has at least one segment.
\<close>

theorem transcript_has_segments:
  assumes "transcribe w self p = Inr (Some t)" and "truthy (transcript_text t)"
  shows "segments t \<noteq> []"
proof -
  from assms(1) have pr: "process_result (self_language self)
      (client_transcribe w (whisper_client self) p (self_language self)) = Inr (Some t)"
    by (simp add: transcribe_Some)
  then obtain d where
    d: "client_transcribe w (whisper_client self) p (self_language self) = PDict d"
    using process_result_Some by blast
  from pr d have "process_result (self_language self) (PDict d) = Inr (Some t)" by simp
  from process_result_segments [OF this] show ?thesis
    by (auto split: if_splits)
qed

theorem transcript_has_segments_witness:
  "\<exists>t. transcribe segmented_world (example_processor None) example_audio = Inr (Some t) \<and>
       truthy (transcript_text t) \<and> segments t \<noteq> []"
proof -
  have p: "whisper_client (example_processor None) = example_client"
    "self_language (example_processor None) = None"
    by (simp_all add: example_processor_def)
  have "\<exists>t. transcribe segmented_world (example_processor None) example_audio =
      Inr (Some t) \<and> truthy (transcript_text t)"
    by (simp add: transcribe_def transcribe_body_def p segmented_world_def
          client_transcribe_example segmented_reply_def first_segment_def normalize_defs)
  then obtain t where
    t: "transcribe segmented_world (example_processor None) example_audio = Inr (Some t)"
    and tt: "truthy (transcript_text t)" by blast
  from transcript_has_segments [OF t tt] t tt show ?thesis by blast
qed

subsection \<open>No speech detected\<close>

lemma normalize_valid_segment:
  assumes "valid_segment v"
  shows "\<exists>si. normalize_segment v = Inr si"
proof -
  from assms obtain sd where v: "v = PDict sd" by (cases v) simp_all
  show ?thesis
  proof (cases "map_of sd ''words''")
    case None
    then show ?thesis by (simp add: v normalize_segment_dict)
  next
    case (Some ws)
    with assms v obtain items where ws: "ws = PList items" and all: "list_all is_dict items"
      by (cases ws) simp_all
    from all obtain wl where "words_loop items [] = Inr wl"
      using words_loop_dicts by blast
    with Some ws show ?thesis by (simp add: v normalize_segment_dict)
  qed
qed

lemma segments_loop_valid:
  "list_all valid_segment ss \<Longrightarrow> \<exists>r. segments_loop ss acc = Inr r"
proof (induction ss arbitrary: acc)
  case Nil
  then show ?case by simp
next
  case (Cons v ss)
  then obtain si where "normalize_segment v = Inr si"
    using normalize_valid_segment by auto
  with Cons show ?case by simp
qed

lemma process_result_valid:
  assumes "structurally_valid result" and "\<exists>c \<in> set (raw_text result). \<not> is_space c"
  shows "\<exists>t. process_result lang result = Inr (Some t)"
proof -
  from assms(1) obtain d where r: "result = PDict d" by (cases result) simp_all
  define s where "s = raw_text result"
  have t: "map_of d ''text'' = Some (PStr s)"
  proof (cases "map_of d ''text''")
    case None
    with assms(2) r show ?thesis by simp
  next
    case (Some v)
    with assms(2) r show ?thesis unfolding s_def by (cases v) simp_all
  qed
  from assms(2) have nb: "\<exists>c \<in> set s. \<not> is_space c" by (simp add: s_def)
  show ?thesis
  proof (cases "truthy (dict_get d ''segments'' (PList []))")
    case False
    with t nb show ?thesis by (simp add: r process_result_basic)
  next
    case True
    with assms(1) r obtain ss where ss: "map_of d ''segments'' = Some (PList ss)"
      and all: "list_all valid_segment ss"
      by (cases "map_of d ''segments''"; cases "the (map_of d ''segments'')")
         (auto simp: dict_get_def)
    from all obtain segment_data where sl: "segments_loop ss [] = Inr segment_data"
      using segments_loop_valid by blast
    from t have d: "d \<noteq> []" by auto
    from t have tx: "dict_get d ''text'' (PStr []) = PStr s" by (simp add: dict_get_def)
    from nb have "no_text (PStr s) = Inr False"
      using nonblank_strip by (simp add: no_text_def)
    moreover from ss have "dict_get d ''segments'' (PList []) = PList ss"
      by (simp add: dict_get_def)
    ultimately show ?thesis
      using True sl by (simp add: r process_result_def d tx)
  qed
qed

lemma process_result_blank:
  assumes "\<forall>c \<in> set (raw_text result). is_space c"
  shows "process_result lang result \<noteq> Inr (Some t)"
proof
  assume "process_result lang result = Inr (Some t)"
  then obtain d s where r: "result = PDict d" and
    tx: "dict_get d ''text'' (PStr []) = PStr s" and s: "s \<noteq> []" "strip s \<noteq> []"
    using process_result_Some by blast
  from tx s(1) have "map_of d ''text'' = Some (PStr s)"
    by (auto simp: dict_get_def split: option.splits)
  with r have "raw_text result = s" by simp
  with assms have "strip s = []" by (simp add: strip_Nil_iff)
  with s(2) show False by simp
qed

text \<open>
  C8. When the top-level text of the raw result is empty (or absent) or consists of
  whitespace only, \<open>transcribe\<close> returns \<open>None\<close>. For a structurally valid response
  this is the only case in which it does: such a response gives \<open>None\<close> exactly when
  its text is empty or whitespace only.
\<close>

theorem blank_text_no_transcript:
  assumes "client_transcribe w (whisper_client self) p (self_language self) = result"
  shows "((\<forall>c \<in> set (raw_text result). is_space c) \<longrightarrow> transcribe w self p = Inr None) \<and>
         (structurally_valid result \<longrightarrow>
            (transcribe w self p = Inr None) = (\<forall>c \<in> set (raw_text result). is_space c))"
proof -
  have blank: "transcribe w self p = Inr None" if "\<forall>c \<in> set (raw_text result). is_space c"
  proof -
    obtain r where r: "transcribe w self p = Inr r"
      using transcribe_total by blast
    have "r = None"
    proof (cases r)
      case (Some t)
      with r assms have "process_result (self_language self) result = Inr (Some t)"
        by (simp add: transcribe_Some)
      with that show ?thesis using process_result_blank by blast
    qed simp
    with r show ?thesis by simp
  qed
  have speech: "transcribe w self p \<noteq> Inr None"
    if "structurally_valid result" and "\<not> (\<forall>c \<in> set (raw_text result). is_space c)"
  proof -
    from that obtain t where "process_result (self_language self) result = Inr (Some t)"
      using process_result_valid by blast
    with assms have "transcribe w self p = Inr (Some t)" by (simp add: transcribe_Some)
    then show ?thesis by simp
  qed
  from blank speech show ?thesis by blast
qed

theorem blank_text_no_transcript_witness:
  "raw_text (PDict [(''text'', PStr ''  '')]) = ''  '' \<and> is_space (CHR '' '') \<and>
   transcribe blank_world (example_processor None) example_audio = Inr None \<and>
   structurally_valid (PDict segmented_reply) \<and>
   \<not> (\<forall>c \<in> set (raw_text (PDict segmented_reply)). is_space c) \<and>
   transcribe segmented_world (example_processor None) example_audio \<noteq> Inr None"
proof -
  have p: "whisper_client (example_processor None) = example_client"
    "self_language (example_processor None) = None"
    by (simp_all add: example_processor_def)
  have a: "client_transcribe blank_world (whisper_client (example_processor None))
      example_audio (self_language (example_processor None)) = PDict [(''text'', PStr ''  '')]"
    by (simp add: p blank_world_def client_transcribe_example)
  have b: "client_transcribe segmented_world (whisper_client (example_processor None))
      example_audio (self_language (example_processor None)) = PDict segmented_reply"
    by (simp add: p segmented_world_def client_transcribe_example)
  have c: "\<forall>c \<in> set (raw_text (PDict [(''text'', PStr ''  '')])). is_space c"
    by (simp add: is_space_def)
  have d: "structurally_valid (PDict segmented_reply)"
    by (simp add: segmented_reply_def first_segment_def)
  have e: "\<not> (\<forall>c \<in> set (raw_text (PDict segmented_reply)). is_space c)"
    by (simp add: segmented_reply_def is_space_def)
  from blank_text_no_transcript [OF a] c
  have "transcribe blank_world (example_processor None) example_audio = Inr None" by blast
  moreover from blank_text_no_transcript [OF b] d e
  have "transcribe segmented_world (example_processor None) example_audio \<noteq> Inr None"
    by blast
  moreover have "raw_text (PDict [(''text'', PStr ''  '')]) = ''  ''" by simp
  moreover have "is_space (CHR '' '')" by (simp add: is_space_def)
  ultimately show ?thesis using d e by blast
qed

end
